theory Spec2Isabelle
  imports Main "HOL-Library.Word" "HOL-Library.Multiset"
begin

unbundle bit_operations_syntax

section \<open>The outside world of the example client\<close>

text \<open>
  \<^verbatim>\<open>examples/python_basic.py\<close> reads two things from outside the program: random
  bytes (\<^verbatim>\<open>uuid.uuid4()\<close> draws \<^verbatim>\<open>os.urandom(16)\<close>) and the wall clock
  (\<^verbatim>\<open>datetime.utcnow()\<close>). Both are inputs of the model: every operation takes the
  values it reads as explicit arguments, in the order in which the code reads them.
\<close>

subsection \<open>Decimal and hexadecimal formatting\<close>

text \<open>\<^verbatim>\<open>str(n)\<close> for a non-negative integer: its decimal digits, most significant first.\<close>

definition digit_char :: "nat \<Rightarrow> char" where
  "digit_char n = ''0123456789'' ! n"

fun dec :: "nat \<Rightarrow> string" where
  "dec n = (if n < 10 then [digit_char n] else dec (n div 10) @ [digit_char (n mod 10)])"

declare dec.simps [simp del]

text \<open>\<^verbatim>\<open>str(i)\<close> for a Python \<^verbatim>\<open>int\<close>.\<close>

definition str_int :: "int \<Rightarrow> string" where
  "str_int i = (if i < 0 then CHR ''-'' # dec (nat (- i)) else dec (nat i))"

text \<open>\<^verbatim>\<open>'%0wd' % n\<close> for \<^verbatim>\<open>n >= 0\<close>: zeros on the left up to width \<open>w\<close>, never truncating.\<close>

definition zpad :: "nat \<Rightarrow> nat \<Rightarrow> string" where
  "zpad w n = replicate (w - length (dec n)) CHR ''0'' @ dec n"

definition hex_digit :: "nat \<Rightarrow> char" where
  "hex_digit n = ''0123456789abcdef'' ! n"

text \<open>The \<open>k\<close>-th group of four bits of a 128-bit integer, counted from the low end.\<close>

definition nibble :: "128 word \<Rightarrow> nat \<Rightarrow> nat" where
  "nibble w k = unat (drop_bit (4 * k) w AND 15)"

text \<open>\<^verbatim>\<open>'%032x' % i\<close> for \<^verbatim>\<open>0 <= i < 2**128\<close>: exactly 32 lower-case hex digits.\<close>

definition hex32 :: "128 word \<Rightarrow> string" where
  "hex32 w = map (\<lambda>i. hex_digit (nibble w (31 - i))) [0..<32]"

subsection \<open>\<^verbatim>\<open>uuid.uuid4()\<close> and \<^verbatim>\<open>str(UUID)\<close>\<close>

text \<open>
  \<^verbatim>\<open>uuid4()\<close> is \<^verbatim>\<open>UUID(bytes=os.urandom(16), version=4)\<close>. The argument \<open>r\<close> is the
  draw, read as a big-endian 128-bit integer; the constructor then overwrites the
  variant and the version fields:
  \<^verbatim>\<open>
  int &= ~(0xc000 << 48);  int |= 0x8000 << 48
  int &= ~(0xf000 << 64);  int |= version << 76
  \<close>
\<close>

definition uuid4 :: "128 word \<Rightarrow> 128 word" where
  "uuid4 r =
     (let i = r AND NOT (push_bit 48 0xc000);
          i = i OR push_bit 48 0x8000;
          i = i AND NOT (push_bit 64 0xf000);
          i = i OR push_bit 76 4
      in i)"

text \<open>Python's slice \<^verbatim>\<open>xs[a:b]\<close> for \<^verbatim>\<open>0 <= a <= b\<close>.\<close>

definition slice :: "nat \<Rightarrow> nat \<Rightarrow> 'a list \<Rightarrow> 'a list" where
  "slice a b xs = take (b - a) (drop a xs)"

text \<open>
  \<^verbatim>\<open>
  hex = '%032x' % self.int
  return '%s-%s-%s-%s-%s' % (hex[:8], hex[8:12], hex[12:16], hex[16:20], hex[20:])
  \<close>
\<close>

definition uuid_str :: "128 word \<Rightarrow> string" where
  "uuid_str u =
     (let hex = hex32 u
      in slice 0 8 hex @ ''-'' @ slice 8 12 hex @ ''-'' @ slice 12 16 hex @ ''-''
         @ slice 16 20 hex @ ''-'' @ drop 20 hex)"

subsection \<open>\<^verbatim>\<open>datetime.utcnow().isoformat()\<close>\<close>

text \<open>A naive \<^verbatim>\<open>datetime\<close>, as \<^verbatim>\<open>utcnow()\<close> returns it.\<close>

record datetime =
  year :: nat
  month :: nat
  day :: nat
  hour :: nat
  minute :: nat
  second :: nat
  microsecond :: nat

text \<open>The field ranges every \<^verbatim>\<open>datetime\<close> object satisfies.\<close>

definition valid_datetime :: "datetime \<Rightarrow> bool" where
  "valid_datetime d =
     (1 \<le> year d \<and> year d \<le> 9999 \<and> 1 \<le> month d \<and> month d \<le> 12 \<and>
      1 \<le> day d \<and> day d \<le> 31 \<and> hour d < 24 \<and> minute d < 60 \<and> second d < 60 \<and>
      microsecond d < 1000000)"

text \<open>
  \<^verbatim>\<open>isoformat()\<close> with the default separator and \<^verbatim>\<open>timespec='auto'\<close>:
  \<^verbatim>\<open>'%04d-%02d-%02dT%02d:%02d:%02d'\<close>, followed by \<^verbatim>\<open>'.%06d'\<close> only when the
  microsecond is not zero. A naive datetime has no offset suffix.
\<close>

definition isoformat :: "datetime \<Rightarrow> string" where
  "isoformat d =
     zpad 4 (year d) @ ''-'' @ zpad 2 (month d) @ ''-'' @ zpad 2 (day d) @ ''T''
     @ zpad 2 (hour d) @ '':'' @ zpad 2 (minute d) @ '':'' @ zpad 2 (second d)
     @ (if microsecond d = 0 then [] else ''.'' @ zpad 6 (microsecond d))"

text \<open>
  Python compares sequences (tuples, and strings by code point) lexicographically: the
  first position where they differ decides, and a proper prefix is the smaller one.
\<close>

fun seq_le :: "nat list \<Rightarrow> nat list \<Rightarrow> bool" where
  "seq_le [] ys = True"
| "seq_le (x # xs) [] = False"
| "seq_le (x # xs) (y # ys) = (if x = y then seq_le xs ys else x < y)"

text \<open>\<^verbatim>\<open>s <= t\<close> on \<^verbatim>\<open>str\<close>.\<close>

definition str_le :: "string \<Rightarrow> string \<Rightarrow> bool" where
  "str_le s t = seq_le (map of_char s) (map of_char t)"

text \<open>\<^verbatim>\<open>a <= b\<close> on naive datetimes: the comparison of their field tuples.\<close>

definition datetime_key :: "datetime \<Rightarrow> nat list" where
  "datetime_key d = [year d, month d, day d, hour d, minute d, second d, microsecond d]"

definition datetime_le :: "datetime \<Rightarrow> datetime \<Rightarrow> bool" where
  "datetime_le a b = seq_le (datetime_key a) (datetime_key b)"

section \<open>\<^verbatim>\<open>MockAmpClient\<close> (\<^verbatim>\<open>amp/examples/python_basic.py\<close>)\<close>

text \<open>
  The dictionaries the client builds, as records. The keys shared by both kinds of
  object form the base record; \<^verbatim>\<open>symbol\<close> and \<^verbatim>\<open>decision\<close> extend it.
\<close>

record provenance =
  agent :: string
  summary :: string

record memory_object =
  id :: string
  type :: string
  tenant_id :: string
  project_id :: string
  created_at :: string
  updated_at :: string
  provenance :: provenance

record symbol = memory_object +
  name :: string
  kind :: string
  path :: string
  language :: string

record decision = memory_object +
  title :: string
  problem :: string
  rationale :: string
  outcome :: string
  status :: string

record query_result =
  results :: "string list"
  trace_id :: string
  total_count :: int
  execution_time_ms :: int

text \<open>
  Each operation returns the line it prints together with the dictionary it returns.
  \<open>r\<close> is the random draw of \<^verbatim>\<open>uuid.uuid4()\<close>; \<open>t1\<close> and \<open>t2\<close> are the two successive
  readings of \<^verbatim>\<open>datetime.utcnow()\<close>, for \<^verbatim>\<open>created_at\<close> and for \<^verbatim>\<open>updated_at\<close>.
  The client object itself has no attributes, so there is no client state to thread.
\<close>

definition create_symbol ::
  "128 word \<Rightarrow> datetime \<Rightarrow> datetime \<Rightarrow> string \<Rightarrow> string \<Rightarrow> string \<Rightarrow> string
     \<Rightarrow> string \<times> symbol" where
  "create_symbol r t1 t2 name' kind' path' language' =
     (let symbol =
        \<lparr> id = uuid_str (uuid4 r),
          type = ''symbol'',
          tenant_id = ''default'',
          project_id = ''example_project'',
          created_at = isoformat t1,
          updated_at = isoformat t2,
          provenance = \<lparr> agent = ''python_example'', summary = ''Created symbol '' @ name' \<rparr>,
          name = name',
          kind = kind',
          path = path',
          language = language' \<rparr>
      in (''Created symbol: '' @ name symbol @ '' ('' @ id symbol @ '')'', symbol))"

definition create_decision ::
  "128 word \<Rightarrow> datetime \<Rightarrow> datetime \<Rightarrow> string \<Rightarrow> string \<Rightarrow> string \<Rightarrow> string
     \<Rightarrow> string \<times> decision" where
  "create_decision r t1 t2 title' problem' rationale' outcome' =
     (let decision =
        \<lparr> id = uuid_str (uuid4 r),
          type = ''decision'',
          tenant_id = ''default'',
          project_id = ''example_project'',
          created_at = isoformat t1,
          updated_at = isoformat t2,
          provenance = \<lparr> agent = ''python_example'', summary = ''Made decision: '' @ title' \<rparr>,
          title = title',
          problem = problem',
          rationale = rationale',
          outcome = outcome',
          status = ''accepted'' \<rparr>
      in (''Created decision: '' @ title decision @ '' ('' @ id decision @ '')'', decision))"

text \<open>
  \<^verbatim>\<open>query_objects(text, limit)\<close>: the line a call prints and the dictionary it returns,
  once line 63 has formatted its arguments (\<open>query_objects_call\<close> below is the call with
  the exception that line can raise). The text is printed and otherwise unused.
\<close>

definition query_objects :: "128 word \<Rightarrow> string \<Rightarrow> int \<Rightarrow> string \<times> query_result" where
  "query_objects r text limit =
     (''Querying for: '' @ [CHR 0x27] @ text @ [CHR 0x27] @ '' (limit: '' @ str_int limit @ '')'',
      \<lparr> results = [],
        trace_id = uuid_str (uuid4 r),
        total_count = 0,
        execution_time_ms = 42 \<rparr>)"

text \<open>The call without the second argument: \<^verbatim>\<open>limit: int = 10\<close>.\<close>

definition query_objects_default :: "128 word \<Rightarrow> string \<Rightarrow> string \<times> query_result" where
  "query_objects_default r text = query_objects r text 10"





section \<open>The parser smoke test (\<^verbatim>\<open>amp/test_parser_fix.py\<close>)\<close>

definition newline :: char where
  "newline = CHR 0x0A"

definition dq :: string where
  "dq = [CHR 0x22]"

text \<open>
  The fixture \<^verbatim>\<open>test_code\<close>: a triple-quoted literal, so it starts with a line break and
  every line ends with one. \<open>dq\<close> is the double quote. The test writes it to a temporary
  file and posts what it reads back as \<^verbatim>\<open>content\<close>, with \<^verbatim>\<open>language = "python"\<close>.
\<close>

definition test_code :: string where
  "test_code = concat (map (\<lambda>l. l @ [newline])
     [ [],
       ''def hello_world():'',
       ''    '' @ dq @ dq @ dq @ ''A simple function'' @ dq @ dq @ dq,
       ''    print('' @ dq @ ''Hello, world!'' @ dq @ '')'',
       [],
       ''class TestClass:'',
       ''    '' @ dq @ dq @ dq @ ''A test class'' @ dq @ dq @ dq,
       ''    '',
       ''    def method_one(self):'',
       ''        '' @ dq @ dq @ dq @ ''A method'' @ dq @ dq @ dq,
       ''        return '' @ dq @ ''method'' @ dq,
       ''    '',
       ''    def method_two(self):'',
       ''        return '' @ dq @ ''another method'' @ dq,
       [],
       ''# A variable assignment'',
       ''test_variable = '' @ dq @ ''hello'' @ dq,
       ''another_var = 42'' ])"


section \<open>The symbol extractor behind the parse endpoint\<close>

text \<open>
  Modelled from the spec: the service that answers \<^verbatim>\<open>/v1/codebase/parse-file\<close> (the
  Symbol Extractor of section 4.2 of the specification and its Python Grammar Adapter,
  section 4.1) is not among the sources; only the test that calls it is. Everything in
  this section follows the contracts of those two sections: an adapter turns source text
  into raw constructs \<open>{construct_kind, name, start_line, end_line}\<close> with
  line-scoped diagnostics, and the extractor maps every construct to a symbol.
\<close>

datatype construct_kind =
  FunctionDecl | ClassDecl | MethodDecl | TypeDecl | Assignment | Unrecognized

record construct =
  construct_kind :: construct_kind
  construct_name :: string
  construct_start :: nat
  construct_end :: nat

record diagnostic =
  line :: nat
  message :: string

datatype symbol_kind = Function | Method | Class | Type | Constant | Variable | Unknown

datatype parse_error = UnsupportedLanguage

text \<open>A symbol of a parse response; \<^verbatim>\<open>symbol_type\<close> is the key the test reads.\<close>

record parsed_symbol =
  symbol_type :: symbol_kind
  symbol_name :: string
  file_path :: string
  source_language :: string
  start_line :: nat
  end_line :: nat


text \<open>
  Modelled from the spec: the lines of a text. A line break ends a line, so a text that
  ends with one has no further, empty line; line numbers are positions in this list,
  counted from zero.
\<close>

fun split_lines :: "string \<Rightarrow> string list" where
  "split_lines [] = []"
| "split_lines (c # cs) =
     (if c = newline then [] # split_lines cs
      else (case split_lines cs of [] \<Rightarrow> [[c]] | l # ls \<Rightarrow> (c # l) # ls))"

definition line_count_of :: "string \<Rightarrow> nat" where
  "line_count_of content = length (split_lines content)"

definition is_space :: "char \<Rightarrow> bool" where
  "is_space c = (c = CHR '' '' \<or> c = CHR 0x09)"

definition indent_of :: "string \<Rightarrow> nat" where
  "indent_of l = length (takeWhile is_space l)"

definition strip_indent :: "string \<Rightarrow> string" where
  "strip_indent l = dropWhile is_space l"

text \<open>A line without code: empty, white space only, or a comment.\<close>

definition is_blank :: "string \<Rightarrow> bool" where
  "is_blank l = (case strip_indent l of [] \<Rightarrow> True | c # cs \<Rightarrow> c = CHR ''#'')"

definition starts_with :: "string \<Rightarrow> string \<Rightarrow> bool" where
  "starts_with p s = (take (length p) s = p)"

definition is_upper :: "char \<Rightarrow> bool" where
  "is_upper c = (let n = (of_char c :: nat) in 65 \<le> n \<and> n \<le> 90)"

definition is_lower :: "char \<Rightarrow> bool" where
  "is_lower c = (let n = (of_char c :: nat) in 97 \<le> n \<and> n \<le> 122)"

definition is_digit :: "char \<Rightarrow> bool" where
  "is_digit c = (let n = (of_char c :: nat) in 48 \<le> n \<and> n \<le> 57)"

definition is_ident_char :: "char \<Rightarrow> bool" where
  "is_ident_char c = (is_upper c \<or> is_lower c \<or> is_digit c \<or> c = CHR ''_'')"

text \<open>The identifier a text starts with (empty when it starts with none).\<close>

definition ident_of :: "string \<Rightarrow> string" where
  "ident_of s =
     (case s of [] \<Rightarrow> [] | c # cs \<Rightarrow> if is_digit c then [] else takeWhile is_ident_char s)"

text \<open>
  Modelled from the spec: what one line of Python declares. The adapter recognises the
  constructs section 4.1 lists: function declarations (\<^verbatim>\<open>def\<close>, \<^verbatim>\<open>async def\<close>), class
  declarations and bindings \<^verbatim>\<open>name = value\<close>. A declaration keyword without a name is
  malformed input and gives a diagnostic for its line.
\<close>

datatype header =
  DefHeader string | ClassHeader string | AssignHeader string | Malformed string | NoHeader

definition named :: "(string \<Rightarrow> header) \<Rightarrow> string \<Rightarrow> header" where
  "named mk rest =
     (let n = ident_of (strip_indent rest)
      in if n = [] then Malformed ''expected a name'' else mk n)"

definition assignment_header :: "string \<Rightarrow> header" where
  "assignment_header body =
     (let n = ident_of body; rest = strip_indent (drop (length n) body)
      in if n = [] then NoHeader
         else if starts_with ''=='' rest then NoHeader
         else if starts_with ''='' rest then AssignHeader n
         else NoHeader)"

definition header_of :: "string \<Rightarrow> header" where
  "header_of body =
     (if starts_with ''async def '' body then named DefHeader (drop 10 body)
      else if starts_with ''def '' body then named DefHeader (drop 4 body)
      else if starts_with ''class '' body then named ClassHeader (drop 6 body)
      else assignment_header body)"

text \<open>
  Modelled from the spec: the last line of the block a header at indentation \<open>k\<close> opens.
  \<open>e\<close> is the last line known to belong to the block, \<open>j\<close> the number of the next line;
  the block goes on while lines are blank or indented deeper than \<open>k\<close>, and ends with its
  last line of code.
\<close>

fun block_end :: "nat \<Rightarrow> nat \<Rightarrow> nat \<Rightarrow> string list \<Rightarrow> nat" where
  "block_end k e j [] = e"
| "block_end k e j (l # ls) =
     (if is_blank l then block_end k e (Suc j) ls
      else if k < indent_of l then block_end k j (Suc j) ls
      else e)"

text \<open>
  The blocks open at a line, innermost first, each with the indentation of its header
  and whether it is a class body. A line at indentation \<open>k\<close> closes every block whose header
  is indented at least as far.
\<close>

fun close_blocks :: "nat \<Rightarrow> (nat \<times> bool) list \<Rightarrow> (nat \<times> bool) list" where
  "close_blocks k [] = []"
| "close_blocks k ((k', c) # st) = (if k \<le> k' then close_blocks k st else (k', c) # st)"

definition in_class :: "(nat \<times> bool) list \<Rightarrow> bool" where
  "in_class st = (case st of [] \<Rightarrow> False | (k, c) # _ \<Rightarrow> c)"

text \<open>
  Modelled from the spec: the Python adapter's pass over the lines, \<open>i\<close> being the number
  of the first line left. A function declared directly in a class body is a method; a
  binding counts only at the top level (indentation 0).
\<close>

fun scan :: "nat \<Rightarrow> (nat \<times> bool) list \<Rightarrow> string list \<Rightarrow> construct list \<times> diagnostic list" where
  "scan i st [] = ([], [])"
| "scan i st (l # ls) =
     (if is_blank l then scan (Suc i) st ls
      else
        let k = indent_of l; st' = close_blocks k st
        in (case header_of (strip_indent l) of
              DefHeader n \<Rightarrow>
                (let (cs, ds) = scan (Suc i) ((k, False) # st') ls
                 in (\<lparr> construct_kind = (if in_class st' then MethodDecl else FunctionDecl),
                       construct_name = n, construct_start = i,
                       construct_end = block_end k i (Suc i) ls \<rparr> # cs, ds))
            | ClassHeader n \<Rightarrow>
                (let (cs, ds) = scan (Suc i) ((k, True) # st') ls
                 in (\<lparr> construct_kind = ClassDecl, construct_name = n, construct_start = i,
                       construct_end = block_end k i (Suc i) ls \<rparr> # cs, ds))
            | AssignHeader n \<Rightarrow>
                (let (cs, ds) = scan (Suc i) st' ls
                 in if k = 0
                    then (\<lparr> construct_kind = Assignment, construct_name = n, construct_start = i,
                            construct_end = i \<rparr> # cs, ds)
                    else (cs, ds))
            | Malformed m \<Rightarrow>
                (let (cs, ds) = scan (Suc i) st' ls
                 in (cs, \<lparr> line = i, message = m \<rparr> # ds))
            | NoHeader \<Rightarrow> scan (Suc i) st' ls))"

definition python_adapter :: "string \<Rightarrow> construct list \<times> diagnostic list" where
  "python_adapter text = scan 0 [] (split_lines text)"

text \<open>Modelled from the spec: the adapter registry, with the one reference adapter.\<close>

definition adapter_for :: "string \<Rightarrow> (string \<Rightarrow> construct list \<times> diagnostic list) option" where
  "adapter_for lang = (if lang = ''python'' then Some python_adapter else None)"

text \<open>
  Modelled from the spec: the mapping from constructs to kinds of section 4.2. A binding
  is a constant when its name is written in upper case with underscores, a variable
  otherwise; a construct kind without an entry gives \<open>Unknown\<close>.
\<close>

definition is_constant_name :: "string \<Rightarrow> bool" where
  "is_constant_name n =
     (list_all (\<lambda>c. is_upper c \<or> is_digit c \<or> c = CHR ''_'') n \<and> list_ex is_upper n)"

definition kind_of :: "construct \<Rightarrow> symbol_kind" where
  "kind_of c =
     (case construct_kind c of
        FunctionDecl \<Rightarrow> Function
      | ClassDecl \<Rightarrow> Class
      | MethodDecl \<Rightarrow> Method
      | TypeDecl \<Rightarrow> Type
      | Assignment \<Rightarrow> (if is_constant_name (construct_name c) then Constant else Variable)
      | Unrecognized \<Rightarrow> Unknown)"

definition to_symbol :: "string \<Rightarrow> string \<Rightarrow> construct \<Rightarrow> parsed_symbol" where
  "to_symbol p lang c =
     \<lparr> symbol_type = kind_of c, symbol_name = construct_name c, file_path = p,
       source_language = lang, start_line = construct_start c, end_line = construct_end c \<rparr>"

text \<open>
  Modelled from the spec: \<^verbatim>\<open>extract(file_path, content, language)\<close> of section 4.2 (the
  name \<open>extract\<close> is taken in Isabelle). It fails only when no adapter is registered
  for the language.
\<close>

definition extract_symbols ::
  "string \<Rightarrow> string \<Rightarrow> string \<Rightarrow> parse_error + (parsed_symbol list \<times> diagnostic list)" where
  "extract_symbols p content lang =
     (case adapter_for lang of
        None \<Rightarrow> Inl UnsupportedLanguage
      | Some parse \<Rightarrow>
          (let (cs, ds) = parse content in Inr (map (to_symbol p lang) cs, ds)))"

section \<open>Notions used in the statements\<close>

text \<open>
  The bits of a random draw that \<open>uuid4\<close> keeps (122 of the 128), and the value of the
  six it overwrites.
\<close>

definition free_bits :: "128 word" where
  "free_bits = NOT (push_bit 48 0xc000 OR push_bit 64 0xf000)"

definition fixed_bits :: "128 word" where
  "fixed_bits = push_bit 48 0x8000 OR push_bit 76 4"

text \<open>The code points of a zero-padded field and of the fraction of \<open>isoformat\<close>.\<close>

definition zp :: "nat \<Rightarrow> nat \<Rightarrow> nat list" where
  "zp w n = map of_char (zpad w n)"

definition fraction :: "nat \<Rightarrow> nat list" where
  "fraction us = map of_char (if us = 0 then [] else ''.'' @ zpad 6 us)"

text \<open>
  Modelled from the spec: the wall-clock duration of an invocation in milliseconds
  (section 3, \<^verbatim>\<open>execution_time_ms\<close>), from the clock reading at which the call starts
  to the reading at which it returns. The client measures nothing of the kind.
\<close>

definition wall_clock_duration_ms :: "int \<Rightarrow> int \<Rightarrow> int" where
  "wall_clock_duration_ms started finished = finished - started"

text \<open>The constructs of the fixture, as \<open>python_adapter_fixture\<close> below establishes.\<close>

definition fixture_constructs :: "construct list" where
  "fixture_constructs =
     [ \<lparr> construct_kind = FunctionDecl, construct_name = ''hello_world'',
         construct_start = 1, construct_end = 3 \<rparr>,
       \<lparr> construct_kind = ClassDecl, construct_name = ''TestClass'',
         construct_start = 5, construct_end = 13 \<rparr>,
       \<lparr> construct_kind = MethodDecl, construct_name = ''method_one'',
         construct_start = 8, construct_end = 10 \<rparr>,
       \<lparr> construct_kind = MethodDecl, construct_name = ''method_two'',
         construct_start = 12, construct_end = 13 \<rparr>,
       \<lparr> construct_kind = Assignment, construct_name = ''test_variable'',
         construct_start = 16, construct_end = 16 \<rparr>,
       \<lparr> construct_kind = Assignment, construct_name = ''another_var'',
         construct_start = 17, construct_end = 17 \<rparr> ]"









record fixture =
  lead :: "string list"
  fn_name :: string
  fn_args :: string
  fn_body :: "string list"
  cls_name :: string
  cls_body :: "string list"
  depth :: nat
  m1_name :: string
  m1_args :: string
  m1_body :: "string list"
  m2_name :: string
  m2_args :: string
  m2_body :: "string list"
  bindings :: "(string \<times> string) list"
  trail :: "string list"







section \<open>Properties of the formatting functions\<close>

subsection \<open>UUID strings determine the UUID\<close>

lemma length_hex32: "length (hex32 w) = 32"
  by (simp add: hex32_def)



lemma hex_digit_inj:
  assumes "n < 16" "m < 16" "hex_digit n = hex_digit m"
  shows "n = m"
proof -
  have d: "distinct ''0123456789abcdef''" by simp
  have l: "length ''0123456789abcdef'' = 16" by simp
  from assms show ?thesis
    unfolding hex_digit_def using d l
    by (metis nth_eq_iff_index_eq)
qed

lemma fifteen_mask: "(15 :: 128 word) = mask 4"
  by (simp add: mask_eq_exp_minus_1)

lemma nibble_take_bit: "nibble w k = take_bit 4 (unat (drop_bit (4 * k) w))"
  by (simp add: nibble_def fifteen_mask flip: take_bit_eq_mask)
     (simp add: unsigned_take_bit_eq)

lemma nibble_lt: "nibble w k < 16"
  using take_bit_nat_less_exp [of 4 "unat (drop_bit (4 * k) w)"]
  by (simp add: nibble_take_bit)

lemma bit_nibble: "bit (nibble w k) j \<longleftrightarrow> j < 4 \<and> bit w (4 * k + j)"
  by (simp add: nibble_take_bit bit_simps ac_simps)

text \<open>A 128-bit value is determined by its 32 nibbles.\<close>

lemma nibbles_eq:
  assumes "\<And>k. k < 32 \<Longrightarrow> nibble v k = nibble w k"
  shows "v = w"
proof (rule bit_word_eqI)
  fix n assume n: "n < LENGTH(128)"
  then have k: "n div 4 < 32" by simp
  have "bit v n \<longleftrightarrow> bit (nibble v (n div 4)) (n mod 4)"
    by (simp add: bit_nibble)
  also have "\<dots> \<longleftrightarrow> bit (nibble w (n div 4)) (n mod 4)"
    using assms [OF k] by simp
  also have "\<dots> \<longleftrightarrow> bit w n"
    by (simp add: bit_nibble)
  finally show "bit v n \<longleftrightarrow> bit w n" .
qed

lemma hex32_inj:
  assumes "hex32 v = hex32 w"
  shows "v = w"
proof (rule nibbles_eq)
  fix k :: nat assume k: "k < 32"
  from assms have "\<forall>i \<in> set [0..<32].
      hex_digit (nibble v (31 - i)) = hex_digit (nibble w (31 - i))"
    by (simp only: hex32_def map_eq_conv)
  moreover from k have "31 - k \<in> set [0..<32]" by simp
  ultimately have "hex_digit (nibble v (31 - (31 - k))) = hex_digit (nibble w (31 - (31 - k)))"
    by blast
  moreover from k have "31 - (31 - k) = k" by simp
  ultimately have "hex_digit (nibble v k) = hex_digit (nibble w k)"
    by simp
  then show "nibble v k = nibble w k"
    using hex_digit_inj nibble_lt by blast
qed

lemma hex_pieces:
  fixes h :: string
  shows "h = slice 0 8 h @ slice 8 12 h @ slice 12 16 h @ slice 16 20 h @ drop 20 h"
proof -
  have 1: "drop 16 h = take 4 (drop 16 h) @ drop 20 h"
    using append_take_drop_id [of 4 "drop 16 h"] by simp
  have 2: "drop 12 h = take 4 (drop 12 h) @ drop 16 h"
    using append_take_drop_id [of 4 "drop 12 h"] by simp
  have 3: "drop 8 h = take 4 (drop 8 h) @ drop 12 h"
    using append_take_drop_id [of 4 "drop 8 h"] by simp
  have 4: "h = take 8 h @ drop 8 h"
    by simp
  have "h = take 8 h @ take 4 (drop 8 h) @ take 4 (drop 12 h) @ take 4 (drop 16 h) @ drop 20 h"
    using 1 2 3 4 by metis
  then show ?thesis by (simp add: slice_def)
qed

lemma uuid_str_inj:
  assumes "uuid_str u = uuid_str v"
  shows "u = v"
proof -
  let ?h = "hex32 u" and ?k = "hex32 v"
  have len: "length ?h = 32" "length ?k = 32"
    by (simp_all add: length_hex32)
  from assms have "slice 0 8 ?h = slice 0 8 ?k \<and> slice 8 12 ?h = slice 8 12 ?k \<and>
      slice 12 16 ?h = slice 12 16 ?k \<and> slice 16 20 ?h = slice 16 20 ?k \<and>
      drop 20 ?h = drop 20 ?k"
    by (simp add: uuid_str_def Let_def slice_def len)
  then have "?h = ?k"
    using hex_pieces [of ?h] hex_pieces [of ?k] by simp
  then show ?thesis by (rule hex32_inj)
qed

subsection \<open>What \<open>uuid4\<close> keeps of the random draw\<close>

lemma mask_steps:
  fixes r :: "'a::len word"
  shows "((r AND NOT a OR b) AND NOT d) OR e = (r AND NOT (a OR d)) OR ((b AND NOT d) OR e)"
  by (rule bit_word_eqI) (auto simp add: bit_simps)

lemma fixed_free: "fixed_bits AND free_bits = 0"
  by (simp add: fixed_bits_def free_bits_def)

lemma fixed_eq: "(push_bit 48 0x8000 AND NOT (push_bit 64 0xf000)) OR push_bit 76 4 = fixed_bits"
  by (simp add: fixed_bits_def)

lemma uuid4_eq: "uuid4 r = (r AND free_bits) OR fixed_bits"
  unfolding uuid4_def Let_def mask_steps free_bits_def fixed_eq ..

lemma uuid4_free: "uuid4 r AND free_bits = r AND free_bits"
proof -
  have "uuid4 r AND free_bits = (r AND free_bits AND free_bits) OR (fixed_bits AND free_bits)"
    unfolding uuid4_eq by (rule bit_word_eqI) (auto simp add: bit_simps)
  then show ?thesis by (simp add: fixed_free ac_simps)
qed

lemma uuid4_eq_iff: "uuid4 r1 = uuid4 r2 \<longleftrightarrow> r1 AND free_bits = r2 AND free_bits"
proof
  assume "uuid4 r1 = uuid4 r2"
  then have "uuid4 r1 AND free_bits = uuid4 r2 AND free_bits" by simp
  then show "r1 AND free_bits = r2 AND free_bits" by (simp only: uuid4_free)
next
  assume "r1 AND free_bits = r2 AND free_bits"
  then show "uuid4 r1 = uuid4 r2" by (simp only: uuid4_eq)
qed

subsection \<open>ISO strings are ordered as the datetimes they format\<close>

lemma seq_le_refl: "seq_le xs xs"
  by (induction xs) simp_all

lemma seq_le_antisym: "seq_le xs ys \<Longrightarrow> seq_le ys xs \<Longrightarrow> xs = ys"
proof (induction xs ys rule: seq_le.induct)
  case (1 ys)
  then show ?case by (cases ys) simp_all
next
  case (2 x xs)
  then show ?case by simp
next
  case (3 x xs y ys)
  then show ?case by (auto split: if_splits)
qed

text \<open>Two blocks of the same length decide the comparison unless they are equal.\<close>

lemma seq_le_blocks:
  "length p = length q \<Longrightarrow>
     seq_le (p @ r1) (q @ r2) = (if p = q then seq_le r1 r2 else seq_le p q)"
  by (induction p q rule: list_induct2) auto

lemma of_char_digit: "k < 10 \<Longrightarrow> of_char (digit_char k) = (48 + k :: nat)"
proof -
  assume "k < 10"
  then have "k \<in> {0,1,2,3,4,5,6,7,8,9}" by auto
  then show ?thesis
    by (auto simp add: digit_char_def)
qed

lemma zpad_one: "n < 10 \<Longrightarrow> zpad (Suc 0) n = [digit_char n]"
  by (simp add: zpad_def dec.simps)

lemma zpad_Suc:
  assumes "1 \<le> w"
  shows "zpad (Suc w) n = zpad w (n div 10) @ [digit_char (n mod 10)]"
proof (cases "n < 10")
  case True
  from assms obtain v where v: "w = Suc v" by (cases w) auto
  have "zpad w 0 = replicate w CHR ''0''"
    by (simp add: zpad_def dec.simps [of 0] digit_char_def v replicate_append_same)
  with True show ?thesis
    by (simp add: zpad_def dec.simps [of n])
next
  case False
  then have "dec n = dec (n div 10) @ [digit_char (n mod 10)]"
    by (subst dec.simps) simp
  then show ?thesis
    by (simp add: zpad_def)
qed

lemma length_zpad: "1 \<le> w \<Longrightarrow> n < 10 ^ w \<Longrightarrow> length (zpad w n) = w"
proof (induction w arbitrary: n)
  case 0
  then show ?case by simp
next
  case (Suc w)
  show ?case
  proof (cases "w = 0")
    case True
    with Suc.prems show ?thesis by (simp add: zpad_one)
  next
    case False
    then have w: "1 \<le> w" by simp
    from Suc.prems have "n div 10 < 10 ^ w"
      by (simp add: less_mult_imp_div_less mult.commute)
    with Suc.IH w have "length (zpad w (n div 10)) = w" by blast
    with w show ?thesis by (simp add: zpad_Suc)
  qed
qed

lemma quot_rem_le:
  fixes x r y s :: nat
  assumes "r < 10" "s < 10"
  shows "(if x = y then r \<le> s else x \<le> y) \<longleftrightarrow> 10 * x + r \<le> 10 * y + s"
  using assms by (cases "x = y") auto

lemma divmod_le:
  fixes a b :: nat
  shows "(if a div 10 = b div 10 then a mod 10 \<le> b mod 10 else a div 10 \<le> b div 10)
     \<longleftrightarrow> a \<le> b"
  using quot_rem_le [of "a mod 10" "b mod 10" "a div 10" "b div 10"] by simp

lemma zp_le:
  "1 \<le> w \<Longrightarrow> a < 10 ^ w \<Longrightarrow> b < 10 ^ w \<Longrightarrow> seq_le (zp w a) (zp w b) \<longleftrightarrow> a \<le> b"
proof (induction w arbitrary: a b)
  case 0
  then show ?case by simp
next
  case (Suc w)
  show ?case
  proof (cases "w = 0")
    case True
    with Suc.prems show ?thesis by (auto simp add: zp_def zpad_one of_char_digit)
  next
    case False
    then have w: "1 \<le> w" by simp
    let ?a = "a div 10" and ?b = "b div 10"
    from Suc.prems have ab: "?a < 10 ^ w" "?b < 10 ^ w"
      by (simp_all add: less_mult_imp_div_less mult.commute)
    have len: "length (zp w ?a) = length (zp w ?b)"
      using w ab by (simp add: zp_def length_zpad)
    have ih: "seq_le (zp w ?a) (zp w ?b) \<longleftrightarrow> ?a \<le> ?b"
      using Suc.IH w ab by blast
    have ih': "seq_le (zp w ?b) (zp w ?a) \<longleftrightarrow> ?b \<le> ?a"
      using Suc.IH w ab by blast
    have eq: "zp w ?a = zp w ?b \<longleftrightarrow> ?a = ?b"
    proof
      assume e: "zp w ?a = zp w ?b"
      have "seq_le (zp w ?a) (zp w ?b)" "seq_le (zp w ?b) (zp w ?a)"
        unfolding e by (rule seq_le_refl)+
      with ih ih' show "?a = ?b" by simp
    qed simp
    have "seq_le (zp (Suc w) a) (zp (Suc w) b)
        = seq_le (zp w ?a @ [of_char (digit_char (a mod 10))])
            (zp w ?b @ [of_char (digit_char (b mod 10))])"
      using w by (simp add: zp_def zpad_Suc)
    also have "\<dots> = (if ?a = ?b then a mod 10 \<le> b mod 10 else ?a \<le> ?b)"
      by (auto simp add: seq_le_blocks [OF len] eq ih of_char_digit)
    also have "\<dots> \<longleftrightarrow> a \<le> b"
      by (rule divmod_le)
    finally show ?thesis .
  qed
qed

lemma zp_eq_iff:
  assumes "1 \<le> w" "a < 10 ^ w" "b < 10 ^ w"
  shows "zp w a = zp w b \<longleftrightarrow> a = b"
proof
  assume e: "zp w a = zp w b"
  have "seq_le (zp w a) (zp w b)" "seq_le (zp w b) (zp w a)"
    unfolding e by (rule seq_le_refl)+
  with assms show "a = b" by (simp add: zp_le)
qed simp

lemma length_zp: "1 \<le> w \<Longrightarrow> n < 10 ^ w \<Longrightarrow> length (zp w n) = w"
  by (simp add: zp_def length_zpad)

text \<open>A padded field in front of a rest compares as the number in front of a tuple's rest.\<close>

lemma seq_le_field:
  assumes "1 \<le> w" "a < 10 ^ w" "b < 10 ^ w"
  shows "seq_le (zp w a @ r1) (zp w b @ r2) = (if a = b then seq_le r1 r2 else a < b)"
proof -
  have "length (zp w a) = length (zp w b)"
    using assms by (simp add: length_zp)
  then show ?thesis
    using assms by (auto simp add: seq_le_blocks zp_eq_iff zp_le)
qed

lemma seq_le_fraction:
  assumes "a < 10 ^ 6" "b < 10 ^ 6"
  shows "seq_le (fraction a) (fraction b) \<longleftrightarrow> a \<le> b"
proof -
  have "seq_le (zp 6 a) (zp 6 b) \<longleftrightarrow> a \<le> b"
    using assms by (simp add: zp_le)
  then show ?thesis
    by (auto simp add: fraction_def zp_def)
qed

lemma isoformat_codes:
  "map of_char (isoformat d) =
     zp 4 (year d) @ 45 # zp 2 (month d) @ 45 # zp 2 (day d) @ 84 # zp 2 (hour d)
       @ 58 # zp 2 (minute d) @ 58 # zp 2 (second d) @ fraction (microsecond d)"
  by (simp add: isoformat_def zp_def fraction_def)

lemma seq_le_sep: "seq_le (c # r1) (c # r2) = seq_le r1 r2"
  by simp

lemma isoformat_order:
  assumes "valid_datetime a" "valid_datetime b"
  shows "str_le (isoformat a) (isoformat b) \<longleftrightarrow> datetime_le a b"
proof -
  from assms have bounds:
    "year a < 10 ^ 4" "month a < 10 ^ 2" "day a < 10 ^ 2" "hour a < 10 ^ 2"
    "minute a < 10 ^ 2" "second a < 10 ^ 2" "microsecond a < 10 ^ 6"
    "year b < 10 ^ 4" "month b < 10 ^ 2" "day b < 10 ^ 2" "hour b < 10 ^ 2"
    "minute b < 10 ^ 2" "second b < 10 ^ 2" "microsecond b < 10 ^ 6"
    by (simp_all add: valid_datetime_def)
  have one: "1 \<le> (4::nat)" "1 \<le> (2::nat)" by simp_all
  have "str_le (isoformat a) (isoformat b) \<longleftrightarrow>
      (if year a = year b then
         if month a = month b then
           if day a = day b then
             if hour a = hour b then
               if minute a = minute b then
                 if second a = second b then microsecond a \<le> microsecond b
                 else second a < second b
               else minute a < minute b
             else hour a < hour b
           else day a < day b
         else month a < month b
       else year a < year b)"
    unfolding str_le_def isoformat_codes
    by (simp only: seq_le_field [OF one(1) bounds(1) bounds(8)]
        seq_le_field [OF one(2) bounds(2) bounds(9)]
        seq_le_field [OF one(2) bounds(3) bounds(10)]
        seq_le_field [OF one(2) bounds(4) bounds(11)]
        seq_le_field [OF one(2) bounds(5) bounds(12)]
        seq_le_field [OF one(2) bounds(6) bounds(13)]
        seq_le_fraction [OF bounds(7) bounds(14)] seq_le_sep)
  also have "\<dots> \<longleftrightarrow> datetime_le a b"
    by (auto simp add: datetime_le_def datetime_key_def)
  finally show ?thesis .
qed

section \<open>The creation operations\<close>

text \<open>
  C4. A decision is created without any status argument (\<^verbatim>\<open>create_decision\<close> has no
  such parameter), and the decision returned has the status \<^verbatim>\<open>accepted\<close>.
\<close>

theorem create_decision_status_accepted:
  "status (snd (create_decision r t1 t2 title' problem' rationale' outcome')) = ''accepted''"
  by (simp add: create_decision_def)

text \<open>
  C6. Every object the creation operations return carries a provenance whose agent and
  whose summary are both non-empty strings, whatever the arguments (the empty name or
  title included).
\<close>

theorem created_provenance_nonempty:
  "agent (provenance (snd (create_symbol r t1 t2 n k p l))) \<noteq> [] \<and>
   summary (provenance (snd (create_symbol r t1 t2 n k p l))) \<noteq> [] \<and>
   agent (provenance (snd (create_decision r t1 t2 ti pr ra ou))) \<noteq> [] \<and>
   summary (provenance (snd (create_decision r t1 t2 ti pr ra ou))) \<noteq> []"
  by (simp add: create_symbol_def create_decision_def)

text \<open>
  C9. Every object created by \<^verbatim>\<open>create_symbol\<close> or \<^verbatim>\<open>create_decision\<close> has the tenant
  \<^verbatim>\<open>default\<close> and the project \<^verbatim>\<open>example_project\<close>, for all arguments: no argument
  reaches either field.
\<close>

theorem created_scope_fixed:
  "tenant_id (snd (create_symbol r t1 t2 n k p l)) = ''default'' \<and>
   project_id (snd (create_symbol r t1 t2 n k p l)) = ''example_project'' \<and>
   tenant_id (snd (create_decision r t1 t2 ti pr ra ou)) = ''default'' \<and>
   project_id (snd (create_decision r t1 t2 ti pr ra ou)) = ''example_project''"
  by (simp add: create_symbol_def create_decision_def)

subsection \<open>Timestamps\<close>

lemma create_symbol_timestamps:
  "created_at (snd (create_symbol r t1 t2 n k p l)) = isoformat t1"
  "updated_at (snd (create_symbol r t1 t2 n k p l)) = isoformat t2"
  by (simp_all add: create_symbol_def)

lemma isoformat_with_fraction:
  "isoformat \<lparr> year = 2024, month = 1, day = 15, hour = 10, minute = 30, second = 0,
      microsecond = 250 \<rparr> = ''2024-01-15T10:30:00.000250''"
  by (simp add: isoformat_def zpad_def dec.simps digit_char_def) (simp add: numeral_3_eq_3)

lemma isoformat_whole_second:
  "isoformat \<lparr> year = 2024, month = 1, day = 15, hour = 10, minute = 30, second = 0,
      microsecond = 0 \<rparr> = ''2024-01-15T10:30:00''"
  by (simp add: isoformat_def zpad_def dec.simps digit_char_def)

text \<open>
  The claim C5 as stated fails: \<^verbatim>\<open>created_at\<close> and \<^verbatim>\<open>updated_at\<close> come from two
  separate readings of the wall clock, which is not monotonic. When the clock is set
  back by 250 microseconds between the two readings, the symbol created has
  \<^verbatim>\<open>created_at = 2024-01-15T10:30:00.000250\<close> and \<^verbatim>\<open>updated_at = 2024-01-15T10:30:00\<close>.
\<close>

theorem created_before_updated_counterexample:
  "\<not> str_le
     (created_at (snd (create_symbol 0
        \<lparr> year = 2024, month = 1, day = 15, hour = 10, minute = 30, second = 0, microsecond = 250 \<rparr>
        \<lparr> year = 2024, month = 1, day = 15, hour = 10, minute = 30, second = 0, microsecond = 0 \<rparr>
        ''main'' ''function'' ''src/main.rs'' ''rust'')))
     (updated_at (snd (create_symbol 0
        \<lparr> year = 2024, month = 1, day = 15, hour = 10, minute = 30, second = 0, microsecond = 250 \<rparr>
        \<lparr> year = 2024, month = 1, day = 15, hour = 10, minute = 30, second = 0, microsecond = 0 \<rparr>
        ''main'' ''function'' ''src/main.rs'' ''rust'')))"
  unfolding create_symbol_timestamps isoformat_with_fraction isoformat_whole_second
  by (simp add: str_le_def)

text \<open>
  C5, amended. For an object returned by \<^verbatim>\<open>create_symbol\<close> or \<^verbatim>\<open>create_decision\<close>,
  \<^verbatim>\<open>updated_at >= created_at\<close> (as Python compares the two ISO strings) holds exactly
  when the second reading of the clock is not earlier than the first. The client has no
  operation that mutates an object, so there is no mutation history to speak of.
\<close>

theorem created_before_updated_iff:
  assumes "valid_datetime t1" and "valid_datetime t2"
  shows
    "(str_le (created_at (snd (create_symbol r t1 t2 n k p l)))
        (updated_at (snd (create_symbol r t1 t2 n k p l))) \<longleftrightarrow> datetime_le t1 t2) \<and>
     (str_le (created_at (snd (create_decision r t1 t2 ti pr ra ou)))
        (updated_at (snd (create_decision r t1 t2 ti pr ra ou))) \<longleftrightarrow> datetime_le t1 t2)"
  using isoformat_order [OF assms]
  by (simp add: create_symbol_def create_decision_def)

theorem created_before_updated_iff_witness:
  "valid_datetime
     \<lparr> year = 2024, month = 1, day = 15, hour = 10, minute = 30, second = 0, microsecond = 0 \<rparr> \<and>
   valid_datetime
     \<lparr> year = 2024, month = 1, day = 15, hour = 10, minute = 30, second = 0, microsecond = 250 \<rparr> \<and>
   datetime_le
     \<lparr> year = 2024, month = 1, day = 15, hour = 10, minute = 30, second = 0, microsecond = 0 \<rparr>
     \<lparr> year = 2024, month = 1, day = 15, hour = 10, minute = 30, second = 0, microsecond = 250 \<rparr> \<and>
   str_le
     (created_at (snd (create_symbol 0
        \<lparr> year = 2024, month = 1, day = 15, hour = 10, minute = 30, second = 0, microsecond = 0 \<rparr>
        \<lparr> year = 2024, month = 1, day = 15, hour = 10, minute = 30, second = 0, microsecond = 250 \<rparr>
        ''main'' ''function'' ''src/main.rs'' ''rust'')))
     (updated_at (snd (create_symbol 0
        \<lparr> year = 2024, month = 1, day = 15, hour = 10, minute = 30, second = 0, microsecond = 0 \<rparr>
        \<lparr> year = 2024, month = 1, day = 15, hour = 10, minute = 30, second = 0, microsecond = 250 \<rparr>
        ''main'' ''function'' ''src/main.rs'' ''rust'')))"
proof -
  let ?t1 = "\<lparr> year = 2024, month = 1, day = 15, hour = 10, minute = 30, second = 0,
    microsecond = 0 \<rparr>"
  let ?t2 = "\<lparr> year = 2024, month = 1, day = 15, hour = 10, minute = 30, second = 0,
    microsecond = 250 \<rparr>"
  have v1: "valid_datetime ?t1" and v2: "valid_datetime ?t2"
    by (simp_all add: valid_datetime_def)
  have le: "datetime_le ?t1 ?t2"
    by (simp add: datetime_le_def datetime_key_def)
  from created_before_updated_iff [OF v1 v2, of 0 "''main''" "''function''" "''src/main.rs''" "''rust''"] le
  have "str_le (created_at (snd (create_symbol 0 ?t1 ?t2 ''main'' ''function'' ''src/main.rs'' ''rust'')))
      (updated_at (snd (create_symbol 0 ?t1 ?t2 ''main'' ''function'' ''src/main.rs'' ''rust'')))"
    by blast
  with v1 v2 le show ?thesis by blast
qed

section \<open>The query operation\<close>

subsection \<open>When a call returns\<close>












text \<open>
  C10. Apart from the trace identifier, the result of a query is the same for all
  inputs: no entries, total count 0, execution time 42, whatever the text, the limit
  and the random draw. The operation takes no store and the creation operations return
  none, so objects created earlier cannot reach it.
\<close>

theorem query_objects_constant_output:
  "results (snd (query_objects r1 text1 limit1)) = [] \<and>
   total_count (snd (query_objects r1 text1 limit1)) = 0 \<and>
   execution_time_ms (snd (query_objects r1 text1 limit1)) = 42 \<and>
   snd (query_objects r1 text1 limit1) \<lparr> trace_id := tid \<rparr>
     = snd (query_objects r2 text2 limit2) \<lparr> trace_id := tid \<rparr>"
  by (simp add: query_objects_def)

subsection \<open>Trace identifiers\<close>

text \<open>
  The claim C3 as stated fails: nothing but the random source keeps two trace
  identifiers apart. Two invocations with different texts and limits, whose draws differ
  only in a bit that \<open>uuid4\<close> overwrites (bit 62, in the variant field), return the same
  trace identifier.
\<close>

theorem trace_id_reused_counterexample:
  "trace_id (snd (query_objects 0 ''rust functions'' 10))
     = trace_id (snd (query_objects (push_bit 62 1) ''python classes'' 5))"
  by (simp add: query_objects_def uuid4_def)

text \<open>
  C3, amended. Two invocations of the query return distinct trace identifiers exactly
  when their random draws differ in one of the 122 bits outside the version and the
  variant field; the texts and limits play no part, and the client keeps no record of
  the identifiers it has issued.
\<close>

theorem trace_id_distinct_iff:
  "trace_id (snd (query_objects r1 text1 limit1)) \<noteq> trace_id (snd (query_objects r2 text2 limit2))
     \<longleftrightarrow> r1 AND free_bits \<noteq> r2 AND free_bits"
proof -
  have "uuid_str (uuid4 r1) = uuid_str (uuid4 r2) \<longleftrightarrow> uuid4 r1 = uuid4 r2"
    by (auto dest: uuid_str_inj)
  then show ?thesis
    by (simp add: query_objects_def uuid4_eq_iff)
qed

subsection \<open>Execution time\<close>

text \<open>
  The claim C8 as stated fails: the client puts the literal 42 into the result and reads
  no clock. An invocation that starts at clock reading 1000 ms and returns at 1007 ms
  reports 42 and not 7.
\<close>

theorem execution_time_not_measured_counterexample:
  "execution_time_ms (snd (query_objects 0 ''rust functions'' 10))
     \<noteq> wall_clock_duration_ms 1000 1007"
  by (simp add: query_objects_def wall_clock_duration_ms_def)

text \<open>
  C8, amended. The \<^verbatim>\<open>execution_time_ms\<close> of every result of the mock client is the
  constant 42, with or without an explicit limit: a placeholder, not a measurement.
\<close>

theorem execution_time_placeholder:
  "execution_time_ms (snd (query_objects r text limit)) = 42 \<and>
   execution_time_ms (snd (query_objects_default r text)) = 42"
  by (simp add: query_objects_def query_objects_default_def)

section \<open>The symbol extractor\<close>

subsection \<open>Line spans\<close>

lemma block_end_bounds:
  "e < j \<Longrightarrow>
     e \<le> block_end k e j ls \<and> (block_end k e j ls = e \<or> block_end k e j ls < j + length ls)"
proof (induction ls arbitrary: e j)
  case Nil
  then show ?case by simp
next
  case (Cons l ls)
  show ?case
  proof (cases "is_blank l")
    case True
    from Cons.prems have "e < Suc j" by simp
    from Cons.IH [OF this] True show ?thesis by auto
  next
    case False
    show ?thesis
    proof (cases "k < indent_of l")
      case True
      have "j < Suc j" by simp
      from Cons.IH [OF this] Cons.prems True False show ?thesis by auto
    next
      case deeper: False
      with False show ?thesis by simp
    qed
  qed
qed

lemma block_end_header:
  "i \<le> block_end k i (Suc i) ls \<and> block_end k i (Suc i) ls < Suc i + length ls"
  using block_end_bounds [of i "Suc i" k ls] by auto

text \<open>Every construct found from line \<open>i\<close> on lies between \<open>i\<close> and the last line.\<close>

lemma scan_spans:
  "c \<in> set (fst (scan i st ls)) \<Longrightarrow>
     i \<le> construct_start c \<and> construct_start c \<le> construct_end c \<and>
     construct_end c < i + length ls"
proof (induction ls arbitrary: i st)
  case Nil
  then show ?case by simp
next
  case (Cons l ls)
  have ih: "scan (Suc i) st' ls = (cs, ds) \<Longrightarrow> c \<in> set cs \<Longrightarrow>
      i \<le> construct_start c \<and> construct_start c \<le> construct_end c \<and>
      construct_end c < i + length (l # ls)"
    for st' cs ds
    using Cons.IH [of "Suc i" st'] by auto
  have ih': "c \<in> set (fst (scan (Suc i) st' ls)) \<Longrightarrow>
      i \<le> construct_start c \<and> construct_start c \<le> construct_end c \<and>
      construct_end c < i + length (l # ls)"
    for st'
    using Cons.IH [of "Suc i" st'] by auto
  show ?case
  proof (cases "is_blank l")
    case True
    with Cons.prems ih' [of st] show ?thesis by simp
  next
    case False
    with Cons.prems block_end_header [of i "indent_of l" ls] show ?thesis
      by (auto simp add: Let_def split: header.splits prod.splits if_splits dest: ih ih')
  qed
qed

text \<open>
  C7. Every symbol of a parse response has \<open>start_line \<le> end_line\<close>, and both are line
  numbers of the content, counted from zero: they lie in \<open>[0, line_count_of content)\<close>.
\<close>

theorem extract_symbols_spans:
  assumes "extract_symbols p content lang = Inr (syms, ds)" and "s \<in> set syms"
  shows "0 \<le> start_line s \<and> start_line s \<le> end_line s \<and> end_line s < line_count_of content"
proof -
  from assms(1) have lang: "lang = ''python''"
    and syms: "syms = map (to_symbol p lang) (fst (python_adapter content))"
    by (auto simp add: extract_symbols_def adapter_for_def split: if_splits prod.splits)
  from assms(2) syms obtain c where c: "c \<in> set (fst (scan 0 [] (split_lines content)))"
    and s: "s = to_symbol p lang c"
    by (auto simp add: python_adapter_def)
  from scan_spans [OF c] show ?thesis
    by (simp add: s to_symbol_def line_count_of_def)
qed

subsection \<open>Kinds\<close>

text \<open>The Python adapter yields only constructs that have an entry in the mapping.\<close>

lemma scan_kinds:
  "c \<in> set (fst (scan i st ls)) \<Longrightarrow>
     construct_kind c = FunctionDecl \<or> construct_kind c = MethodDecl \<or>
     construct_kind c = ClassDecl \<or> construct_kind c = Assignment"
proof (induction ls arbitrary: i st)
  case Nil
  then show ?case by simp
next
  case (Cons l ls)
  let ?P = "construct_kind c = FunctionDecl \<or> construct_kind c = MethodDecl \<or>
     construct_kind c = ClassDecl \<or> construct_kind c = Assignment"
  have ih: "scan (Suc i) st' ls = (cs, ds) \<Longrightarrow> c \<in> set cs \<Longrightarrow> ?P" for st' cs ds
    using Cons.IH [of "Suc i" st'] by auto
  have ih': "c \<in> set (fst (scan (Suc i) st' ls)) \<Longrightarrow> ?P" for st'
    using Cons.IH [of "Suc i" st'] by auto
  show ?case
  proof (cases "is_blank l")
    case True
    with Cons.prems ih' [of st] show ?thesis by simp
  next
    case False
    with Cons.prems show ?thesis
      by (auto simp add: Let_def split: header.splits prod.splits if_splits dest: ih ih')
  qed
qed

lemma extract_symbols_python:
  "\<exists>syms ds. extract_symbols p content ''python'' = Inr (syms, ds)"
  by (simp add: extract_symbols_def adapter_for_def split: prod.splits)

lemma extract_symbols_unsupported:
  "lang \<noteq> ''python'' \<Longrightarrow> extract_symbols p content lang = Inl UnsupportedLanguage"
  by (simp add: extract_symbols_def adapter_for_def)

lemma extract_symbols_never_unknown:
  assumes "extract_symbols p content lang = Inr (syms, ds)" and "s \<in> set syms"
  shows "symbol_type s \<noteq> Unknown"
proof -
  from assms(1) have syms: "syms = map (to_symbol p lang) (fst (python_adapter content))"
    by (auto simp add: extract_symbols_def adapter_for_def split: if_splits prod.splits)
  from assms(2) syms obtain c where c: "c \<in> set (fst (scan 0 [] (split_lines content)))"
    and s: "s = to_symbol p lang c"
    by (auto simp add: python_adapter_def)
  from scan_kinds [OF c] show ?thesis
    by (auto simp add: s to_symbol_def kind_of_def)
qed

subsection \<open>The fixture of the smoke test\<close>

lemma python_adapter_fixture: "python_adapter test_code = (fixture_constructs, [])"
  by code_simp

lemma extract_fixture:
  "extract_symbols p test_code ''python''
     = Inr (map (to_symbol p ''python'') fixture_constructs, [])"
  by (simp add: extract_symbols_def adapter_for_def python_adapter_fixture)

lemma line_count_fixture: "line_count_of test_code = 18"
  by code_simp

theorem extract_symbols_spans_witness:
  "extract_symbols ''fixture.py'' test_code ''python''
     = Inr (map (to_symbol ''fixture.py'' ''python'') fixture_constructs, []) \<and>
   to_symbol ''fixture.py'' ''python''
     \<lparr> construct_kind = ClassDecl, construct_name = ''TestClass'',
       construct_start = 5, construct_end = 13 \<rparr>
     \<in> set (map (to_symbol ''fixture.py'' ''python'') fixture_constructs) \<and>
   start_line (to_symbol ''fixture.py'' ''python''
     \<lparr> construct_kind = ClassDecl, construct_name = ''TestClass'',
       construct_start = 5, construct_end = 13 \<rparr>) = 5 \<and>
   end_line (to_symbol ''fixture.py'' ''python''
     \<lparr> construct_kind = ClassDecl, construct_name = ''TestClass'',
       construct_start = 5, construct_end = 13 \<rparr>) = 13 \<and>
   end_line (to_symbol ''fixture.py'' ''python''
     \<lparr> construct_kind = ClassDecl, construct_name = ''TestClass'',
       construct_start = 5, construct_end = 13 \<rparr>) < line_count_of test_code \<and>
   line_count_of test_code = 18"
proof -
  let ?s = "to_symbol ''fixture.py'' ''python''
     \<lparr> construct_kind = ClassDecl, construct_name = ''TestClass'',
       construct_start = 5, construct_end = 13 \<rparr>"
  have mem: "?s \<in> set (map (to_symbol ''fixture.py'' ''python'') fixture_constructs)"
    by (simp add: fixture_constructs_def)
  have "end_line ?s < line_count_of test_code"
    using extract_symbols_spans [OF extract_fixture mem] by simp
  moreover have "start_line ?s = 5" "end_line ?s = 13"
    by (simp_all add: to_symbol_def)
  ultimately show ?thesis
    using mem by (simp add: extract_fixture line_count_fixture)
qed

subsection \<open>Fixtures with a function, a class with two methods and variables\<close>






subsubsection \<open>Lines\<close>



subsubsection \<open>Characters and names\<close>











subsubsection \<open>What the declaration lines are\<close>








subsubsection \<open>The pass over a fixture\<close>











subsubsection \<open>The symbols of a fixture\<close>














end
